theory Spec2Isabelle
  imports Main "HOL-Library.Sublist"
begin

section \<open>JavaScript values, arrays and objects\<close>

text \<open>
  The cells and property values that \<open>App.tsx\<close> handles at run time. The TypeScript casts
  (\<open>as string[]\<close>, \<open>as Record<string, string>[]\<close>) are erased, and the code itself tests
  \<open>typeof cell === 'string'\<close>, so a cell is any of the following values. A \<open>string\<close> is
  the list of the code units of the JavaScript string (one \<open>char\<close> per code unit, so the
  code units \<open>0..255\<close>); numbers are the integral ones. \<open>JFunction\<close> and \<open>JObject\<close> are
  the built-in functions and objects that a property read can find, each given by its name.
\<close>

datatype jsval =
  JUndefined | JNull | JBool bool | JNum int | JStr string | JFunction string | JObject string

datatype js_error = TypeError

fun typeof :: "jsval \<Rightarrow> string" where
  "typeof JUndefined = ''undefined''"
| "typeof JNull = ''object''"
| "typeof (JBool b) = ''boolean''"
| "typeof (JNum n) = ''number''"
| "typeof (JStr s) = ''string''"
| "typeof (JFunction name) = ''function''"
| "typeof (JObject name) = ''object''"

text \<open>ToBoolean, as used by \<open>&&\<close>, \<open>||\<close> and the callback of \<open>filter\<close>.\<close>

fun truthy :: "jsval \<Rightarrow> bool" where
  "truthy JUndefined = False"
| "truthy JNull = False"
| "truthy (JBool b) = b"
| "truthy (JNum n) = (n \<noteq> 0)"
| "truthy (JStr s) = (s \<noteq> [])"
| "truthy (JFunction name) = True"
| "truthy (JObject name) = True"

text \<open>\<open>a || b\<close>: the left operand when it is truthy, else the right one.\<close>

definition js_or :: "jsval \<Rightarrow> jsval \<Rightarrow> jsval" where
  "js_or a b = (if truthy a then a else b)"

text \<open>\<open>xs[i]\<close> on an array: \<open>undefined\<close> out of range.\<close>

definition index :: "jsval list \<Rightarrow> nat \<Rightarrow> jsval" where
  "index xs i = (if i < length xs then xs ! i else JUndefined)"

text \<open>
  An object is the list of its own enumerable properties in the order in which
  \<open>Object.keys\<close> returns them (for the rows of the parser that is the order of the header
  cells, except that keys that are array indices come first). The objects of the program
  are plain objects: \<open>obj[key]\<close> reads the own property when there is one, else the
  property of that name that every plain object inherits from \<open>Object.prototype\<close>, and
  is \<open>undefined\<close> when there is neither.
\<close>

type_synonym jsobject = "(string \<times> jsval) list"

definition Object_keys :: "jsobject \<Rightarrow> string list" where
  "Object_keys obj = map fst obj"

text \<open>
  The read of a name that is not an own property: the methods of \<open>Object.prototype\<close>, its
  accessor \<open>__proto__\<close> (which gives \<open>Object.prototype\<close> itself), and \<open>undefined\<close> for
  every other name.
\<close>

definition objectPrototypeMethods :: "string list" where
  "objectPrototypeMethods =
     [''constructor'', ''hasOwnProperty'', ''isPrototypeOf'', ''propertyIsEnumerable'',
      ''toLocaleString'', ''toString'', ''valueOf'', ''__defineGetter__'',
      ''__defineSetter__'', ''__lookupGetter__'', ''__lookupSetter__'']"

definition objectPrototypeRead :: "string \<Rightarrow> jsval" where
  "objectPrototypeRead key =
     (if key \<in> set objectPrototypeMethods then JFunction key
      else if key = ''__proto__'' then JObject ''Object.prototype''
      else JUndefined)"

definition getProp :: "jsobject \<Rightarrow> string \<Rightarrow> jsval" where
  "getProp obj key = (case map_of obj key of None \<Rightarrow> objectPrototypeRead key | Some v \<Rightarrow> v)"

text \<open>\<open>xs.map((x, index) => f(x, index))\<close>.\<close>

definition mapi :: "('a \<Rightarrow> nat \<Rightarrow> 'b) \<Rightarrow> 'a list \<Rightarrow> 'b list" where
  "mapi f xs = map (\<lambda>(x, i). f x i) (zip xs [0..<length xs])"

text \<open>
  The same, for a callback that can throw: the first exception ends the traversal.
  The second argument is the index of the head of the list.
\<close>

fun mapiE :: "('a \<Rightarrow> nat \<Rightarrow> js_error + 'b) \<Rightarrow> nat \<Rightarrow> 'a list \<Rightarrow> js_error + 'b list" where
  "mapiE f i [] = Inr []"
| "mapiE f i (x # xs) =
     (case f x i of
        Inl e \<Rightarrow> Inl e
      | Inr y \<Rightarrow> (case mapiE f (Suc i) xs of Inl e \<Rightarrow> Inl e | Inr ys \<Rightarrow> Inr (y # ys)))"

subsection \<open>Strings\<close>

text \<open>
  The white space and line terminators that \<open>String.prototype.trim\<close> strips, among the
  code units \<open>0..255\<close>: TAB, LF, VT, FF, CR, SP and NBSP.
\<close>

definition isWhiteSpace :: "char \<Rightarrow> bool" where
  "isWhiteSpace c = (of_char c \<in> {9, 10, 11, 12, 13, 32, 160 :: nat})"

definition trim :: "string \<Rightarrow> string" where
  "trim s = rev (dropWhile isWhiteSpace (rev (dropWhile isWhiteSpace s)))"

text \<open>\<open>s.substring(indexStart, indexEnd)\<close> for \<open>indexStart \<le> indexEnd\<close>; both are clamped to the length.\<close>

definition substring :: "string \<Rightarrow> nat \<Rightarrow> nat \<Rightarrow> string" where
  "substring s indexStart indexEnd = take (indexEnd - indexStart) (drop indexStart s)"

text \<open>\<open>t.endsWith(s)\<close>.\<close>

definition endsWith :: "string \<Rightarrow> string \<Rightarrow> bool" where
  "endsWith t s = (length s \<le> length t \<and> drop (length t - length s) t = s)"

text \<open>The decimal digits of a number, as a template literal \<open>`${n}`\<close> prints them.\<close>

definition digit_char :: "nat \<Rightarrow> char" where
  "digit_char d = ''0123456789'' ! d"

function string_of_nat :: "nat \<Rightarrow> string" where
  "string_of_nat n =
     (if n < 10 then [digit_char n]
      else string_of_nat (n div 10) @ [digit_char (n mod 10)])"
  by pat_completeness auto
termination
  by (relation "measure (\<lambda>n. n)") auto

declare string_of_nat.simps [simp del]

section \<open>The parser, the classifier and the table of language names\<close>

text \<open>
  \<open>Papa.parse(file, {complete, error})\<close> calls one of its two callbacks: \<open>complete\<close> with
  the results, or \<open>error\<close> with an error whose \<open>message\<close> is a string. The results are
  \<open>results.data\<close>, the rows, and \<open>results.errors\<close>, the messages of the errors that the
  parser met in the content of the file (a quoted field that is not closed, a row with too
  few fields): malformed content is reported there, with the rows that could be read, and
  the \<open>error\<close> callback is for a file that cannot be read at all. The parser is a
  parameter of the handlers: a function from the file to this outcome, returning rows as
  arrays without \<open>header: true\<close> and as objects with it. The classifier \<open>franc.franc\<close> is a
  parameter too.
\<close>

datatype 'a parse_result = Complete 'a "string list" | ParseError string

text \<open>
  The table \<open>langCodes\<close> (the module \<open>./langCodes\<close>) is a parameter: the own entries of a
  plain object, from codes to names. \<open>langCodes code = None\<close> says that the object has no
  own entry for the code.
\<close>

section \<open>The state of the component\<close>

text \<open>
  The interface \<open>LanguageResult\<close>, the type of the \<open>stats\<close> hook, and one field for each
  \<open>useState\<close> hook of \<open>App\<close>. The fields \<open>text\<close> and \<open>file\<close> carry a prime here, both
  words being keywords of the theory language.
\<close>

record LanguageResult =
  label :: jsval
  language :: jsval
  text' :: string

record stats_t =
  rows :: nat
  labels :: nat
  languages :: "jsval set"

record 'f app_state =
  file' :: "'f option"
  columns :: "jsval list"
  selectedColumn :: jsval
  isProcessing :: bool
  error :: "string option"
  languageResults :: "LanguageResult list"
  stats :: stats_t

text \<open>The initial values of the \<open>useState\<close> hooks.\<close>

definition initialState :: "'f app_state" where
  "initialState =
     \<lparr> file' = None, columns = [], selectedColumn = JStr [], isProcessing = False,
       error = None, languageResults = [],
       stats = \<lparr> rows = 0, labels = 0, languages = {} \<rparr> \<rparr>"

section \<open>getLanguageName\<close>

text \<open>
  \<open>langCodes[langCode] || langCode\<close>: what the read of the table finds when that is
  truthy, else the code. The read finds the own entry, or a property that the table
  inherits as every plain object does.
\<close>

definition getLanguageName :: "(string \<rightharpoonup> string) \<Rightarrow> string \<Rightarrow> jsval" where
  "getLanguageName langCodes langCode =
     (if langCode = ''und'' then JStr ''Undetermined''
      else js_or (case langCodes langCode of
                    None \<Rightarrow> objectPrototypeRead langCode
                  | Some name \<Rightarrow> JStr name)
                 (JStr langCode))"

section \<open>handleFileUpload\<close>

text \<open>
  The callback of \<open>firstRow.every\<close> at upload:
  \<open>typeof cell === 'string' && cell.trim() !== ''\<close>.
\<close>

definition isHeaderCell :: "jsval \<Rightarrow> bool" where
  "isHeaderCell cell =
     (typeof cell = ''string'' \<and> (case cell of JStr s \<Rightarrow> trim s \<noteq> [] | _ \<Rightarrow> False))"

definition uploadHasHeaders :: "jsval list \<Rightarrow> bool" where
  "uploadHasHeaders firstRow = list_all isHeaderCell firstRow"

text \<open>
  The \<open>complete\<close> callback of the upload: nothing is set when \<open>results.data\<close> has no row.
  Neither \<open>complete\<close> callback reads \<open>results.errors\<close>.
\<close>

definition uploadComplete :: "jsval list list \<Rightarrow> 'f app_state \<Rightarrow> 'f app_state" where
  "uploadComplete data st =
     (case data of
        [] \<Rightarrow> st
      | firstRow # _ \<Rightarrow>
          (if uploadHasHeaders firstRow
           then st\<lparr> columns := drop 1 firstRow,
                    selectedColumn := js_or (index firstRow 1) (JStr []) \<rparr>
           else st\<lparr> columns := mapi (\<lambda>_ i. JStr (''Column '' @ string_of_nat (i + 1))) firstRow,
                    selectedColumn := JStr ''Column 2'' \<rparr>))"

definition handleFileUpload ::
  "('f \<Rightarrow> jsval list list parse_result) \<Rightarrow> 'f option \<Rightarrow> 'f app_state \<Rightarrow> 'f app_state" where
  "handleFileUpload papa uploadedFile st =
     (case uploadedFile of
        None \<Rightarrow> st
      | Some f \<Rightarrow>
          (let st1 = st\<lparr> file' := Some f, error := None \<rparr>
           in case papa f of
                Complete data errors \<Rightarrow> uploadComplete data st1
              | ParseError message \<Rightarrow> st1\<lparr> error := Some (''Error parsing CSV: '' @ message) \<rparr>))"

section \<open>handleColumnSelect\<close>

text \<open>
  Header detection in the \<open>complete\<close> callback of the column selection, on the first
  object of \<open>results.data\<close>: \<open>Object.keys(data[0]).every(key => key !== '')\<close>.
\<close>

definition selectHasHeaders :: "jsobject \<Rightarrow> bool" where
  "selectHasHeaders row0 = list_all (\<lambda>key. key \<noteq> []) (Object_keys row0)"

text \<open>
  \<open>hasHeaders ? Object.keys(data[0])[0] : '0'\<close>. The only use of the result is as a
  property key, so the \<open>undefined\<close> read from an empty key array is the key
  \<open>'undefined'\<close>.
\<close>

definition labelColumnOf :: "bool \<Rightarrow> jsobject \<Rightarrow> string" where
  "labelColumnOf hasHeaders row0 =
     (if hasHeaders
      then (case Object_keys row0 of [] \<Rightarrow> ''undefined'' | key # _ \<Rightarrow> key)
      else ''0'')"

text \<open>The callback of \<open>filter\<close>: \<open>row[column] && typeof row[column] === 'string'\<close>.\<close>

definition keepRow :: "string \<Rightarrow> jsobject \<Rightarrow> bool" where
  "keepRow column row =
     (truthy (getProp row column) \<and> typeof (getProp row column) = ''string'')"

text \<open>
  The callback of \<open>map\<close>. \<open>row[column].substring\<close> throws a TypeError when
  \<open>row[column]\<close> is not a string.
\<close>

definition toResult ::
  "(string \<Rightarrow> string) \<Rightarrow> (string \<rightharpoonup> string) \<Rightarrow> string \<Rightarrow> bool \<Rightarrow> string \<Rightarrow>
   jsobject \<Rightarrow> nat \<Rightarrow> js_error + LanguageResult" where
  "toResult franc langCodes column hasHeaders labelColumn row i =
     (case getProp row column of
        JStr s \<Rightarrow>
          Inr \<lparr> label = (if hasHeaders then getProp row labelColumn
                          else JStr (''Row '' @ string_of_nat (i + 1))),
                language = getLanguageName langCodes (franc s),
                text' = substring s 0 50 @ (if length s > 50 then ''...'' else []) \<rparr>
      | _ \<Rightarrow> Inl TypeError)"

text \<open>
  The \<open>complete\<close> callback. \<open>Object.keys(data[0])\<close> throws a TypeError when \<open>data\<close> is
  empty (\<open>data[0]\<close> is \<open>undefined\<close>); an exception leaves the state as it was when the
  callback started.
\<close>

definition selectComplete ::
  "(string \<Rightarrow> string) \<Rightarrow> (string \<rightharpoonup> string) \<Rightarrow> string \<Rightarrow> jsobject list \<Rightarrow>
   'f app_state \<Rightarrow> (js_error \<times> 'f app_state) + 'f app_state" where
  "selectComplete franc langCodes column data st =
     (case data of
        [] \<Rightarrow> Inl (TypeError, st)
      | row0 # _ \<Rightarrow>
          (let hasHeaders = selectHasHeaders row0;
               labelColumn = labelColumnOf hasHeaders row0
           in case mapiE (toResult franc langCodes column hasHeaders labelColumn) 0
                     (filter (keepRow column) data) of
                Inl e \<Rightarrow> Inl (e, st)
              | Inr results \<Rightarrow>
                  Inr (st\<lparr> languageResults := results,
                           stats := \<lparr> rows = length data,
                                      labels = (if hasHeaders
                                                then card (set (map (\<lambda>row. getProp row labelColumn) data))
                                                else length data),
                                      languages = set (map language results) \<rparr>,
                           isProcessing := False \<rparr>)))"

definition handleColumnSelect ::
  "('f \<Rightarrow> jsobject list parse_result) \<Rightarrow> (string \<Rightarrow> string) \<Rightarrow> (string \<rightharpoonup> string) \<Rightarrow>
   string \<Rightarrow> 'f app_state \<Rightarrow> (js_error \<times> 'f app_state) + 'f app_state" where
  "handleColumnSelect papa franc langCodes column st =
     (let st1 = st\<lparr> selectedColumn := JStr column, isProcessing := True, error := None \<rparr>
      in case file' st of
           None \<Rightarrow> Inr st1
         | Some f \<Rightarrow>
             (case papa f of
                Complete data errors \<Rightarrow> selectComplete franc langCodes column data st1
              | ParseError message \<Rightarrow>
                  Inr (st1\<lparr> error := Some (''Error processing CSV: '' @ message),
                            isProcessing := False \<rparr>)))"

section \<open>The words of the specification\<close>

text \<open>
  A cell that the row filter of the specification keeps: a non-empty string value of string
  type. A cell that is missing, empty or not a string is not.
\<close>

definition nonEmptyStringCell :: "jsval \<Rightarrow> bool" where
  "nonEmptyStringCell v = (case v of JStr s \<Rightarrow> s \<noteq> [] | _ \<Rightarrow> False)"

text \<open>
  The header rule of the specification for a cell: a string with a character that is not
  white space, so that trimming leaves it non-empty.
\<close>

definition nonBlankStringCell :: "jsval \<Rightarrow> bool" where
  "nonBlankStringCell v = (case v of JStr s \<Rightarrow> \<not> list_all isWhiteSpace s | _ \<Rightarrow> False)"

section \<open>Sample inputs\<close>

text \<open>
  Files are named by strings. \<open>sampleUploadPapa\<close> is a parser without \<open>header: true\<close>,
  \<open>sampleHeaderPapa\<close> the same parser with it: the first line gives the keys of the
  objects made from the other lines. The file \<open>malformed.csv\<close> is
  \<open>label,text\<close>, \<open>A,Hello world\<close> and \<open>B,"Bonjour le monde\<close>, with a quote that is not
  closed;
  \<open>numeric_header.csv\<close> has the header \<open>label,0,text\<close>, so that the key \<open>0\<close>, an array
  index, is the first key of its row objects.
\<close>

definition numericHeaderTable :: "jsval list list" where
  "numericHeaderTable =
     [[JStr ''label'', JStr ''0'', JStr ''text''],
      [JStr ''A'', JStr ''x'', JStr ''Hello world''],
      [JStr ''B'', JStr ''x'', JStr ''Bonjour le monde'']]"

definition blankLabelTable :: "jsval list list" where
  "blankLabelTable =
     [[JStr '' '', JStr ''Column 2''],
      [JStr ''a'', JStr ''hello''],
      [JStr ''a'', JStr ''world'']]"

definition sampleUploadPapa :: "string \<Rightarrow> jsval list list parse_result" where
  "sampleUploadPapa f =
     (if f = ''sample.csv'' then
        Complete [[JStr ''label'', JStr ''text''],
                  [JStr ''A'', JStr ''Hello world''],
                  [JStr ''B'', JStr ''Bonjour le monde''],
                  [JStr ''C'', JStr []]] []
      else if f = ''headerless.csv'' then
        Complete [[JStr [], JStr ''hello''], [JStr ''1'', JStr ''world'']] []
      else if f = ''blank_key.csv'' then
        Complete [[JStr '' '', JStr ''text''], [JStr ''a'', JStr ''hello'']] []
      else if f = ''blank_label.csv'' then Complete blankLabelTable []
      else if f = ''numeric_header.csv'' then Complete numericHeaderTable []
      else if f = ''header_only.csv'' then
        Complete [[JStr ''a'', JStr ''b'']] []
      else if f = ''malformed.csv'' then
        Complete [[JStr ''label'', JStr ''text''],
                  [JStr ''A'', JStr ''Hello world''],
                  [JStr ''B'', JStr ''Bonjour le monde'']]
          [''Quoted field unterminated'']
      else if f = ''empty.csv'' then
        Complete [] []
      else ParseError ''file could not be read'')"

definition sampleRows :: "jsobject list" where
  "sampleRows =
     [[(''label'', JStr ''A''), (''text'', JStr ''Hello world'')],
      [(''label'', JStr ''B''), (''text'', JStr ''Bonjour le monde'')],
      [(''label'', JStr ''C''), (''text'', JStr [])]]"

definition blankKeyRows :: "jsobject list" where
  "blankKeyRows = [[('' '', JStr ''a''), (''text'', JStr ''hello'')]]"

definition blankLabelRows :: "jsobject list" where
  "blankLabelRows =
     [[('' '', JStr ''a''), (''Column 2'', JStr ''hello'')],
      [('' '', JStr ''a''), (''Column 2'', JStr ''world'')]]"

definition numericHeaderRows :: "jsobject list" where
  "numericHeaderRows =
     [[(''0'', JStr ''x''), (''label'', JStr ''A''), (''text'', JStr ''Hello world'')],
      [(''0'', JStr ''x''), (''label'', JStr ''B''), (''text'', JStr ''Bonjour le monde'')]]"

definition malformedRows :: "jsobject list" where
  "malformedRows =
     [[(''label'', JStr ''A''), (''text'', JStr ''Hello world'')],
      [(''label'', JStr ''B''), (''text'', JStr ''Bonjour le monde'')]]"

definition dotsRows :: "jsobject list" where
  "dotsRows = [[(''label'', JStr ''A''), (''text'', JStr ''Wait...'')]]"

definition longRows :: "jsobject list" where
  "longRows =
     [[(''label'', JStr ''A''),
       (''text'', JStr ''The quick brown fox jumps over the lazy dog and then keeps on running'')]]"

definition sampleHeaderPapa :: "string \<Rightarrow> jsobject list parse_result" where
  "sampleHeaderPapa f =
     (if f = ''sample.csv'' then Complete sampleRows []
      else if f = ''long.csv'' then Complete longRows []
      else if f = ''headerless.csv'' then
        Complete [[([], JStr ''1''), (''hello'', JStr ''world'')]] []
      else if f = ''blank_key.csv'' then Complete blankKeyRows []
      else if f = ''blank_label.csv'' then Complete blankLabelRows []
      else if f = ''numeric_header.csv'' then Complete numericHeaderRows []
      else if f = ''dots.csv'' then Complete dotsRows []
      else if f = ''header_only.csv'' then Complete [] []
      else if f = ''malformed.csv'' then Complete malformedRows [''Quoted field unterminated'']
      else ParseError ''file could not be read'')"

definition sampleFranc :: "string \<Rightarrow> string" where
  "sampleFranc s =
     (if s = ''Hello world'' then ''eng''
      else if s = ''Bonjour le monde'' then ''fra''
      else ''und'')"

definition sampleLangCodes :: "string \<rightharpoonup> string" where
  "sampleLangCodes = [''eng'' \<mapsto> ''English'', ''fra'' \<mapsto> ''French'']"

definition sampleState :: "string \<Rightarrow> string app_state" where
  "sampleState f = initialState\<lparr> file' := Some f \<rparr>"

text \<open>A state that shows the results of an earlier pass.\<close>

definition shownState :: "string \<Rightarrow> string app_state" where
  "shownState f =
     \<lparr> file' = Some f, columns = [JStr ''text''], selectedColumn = JStr ''text'',
       isProcessing = False, error = None,
       languageResults =
         [\<lparr> label = JStr ''Z'', language = JStr ''English'', text' = ''old'' \<rparr>],
       stats = \<lparr> rows = 1, labels = 1, languages = {JStr ''English''} \<rparr> \<rparr>"

text \<open>
  The states that the column selection reaches on the sample files: from \<open>sampleState\<close>
  for the first four, from the state after the upload of the file for \<open>blank_label.csv\<close>
  and \<open>numeric_header.csv\<close>, and from \<open>shownState\<close> for \<open>malformed.csv\<close>.
\<close>

definition sampleOutcome :: "string app_state" where
  "sampleOutcome =
     \<lparr> file' = Some ''sample.csv'', columns = [], selectedColumn = JStr ''text'',
       isProcessing = False, error = None,
       languageResults =
         [\<lparr> label = JStr ''A'', language = JStr ''English'', text' = ''Hello world'' \<rparr>,
          \<lparr> label = JStr ''B'', language = JStr ''French'', text' = ''Bonjour le monde'' \<rparr>],
       stats = \<lparr> rows = 3, labels = 3, languages = {JStr ''English'', JStr ''French''} \<rparr> \<rparr>"

definition dotsOutcome :: "string app_state" where
  "dotsOutcome =
     \<lparr> file' = Some ''dots.csv'', columns = [], selectedColumn = JStr ''text'',
       isProcessing = False, error = None,
       languageResults =
         [\<lparr> label = JStr ''A'', language = JStr ''Undetermined'', text' = ''Wait...'' \<rparr>],
       stats = \<lparr> rows = 1, labels = 1, languages = {JStr ''Undetermined''} \<rparr> \<rparr>"

definition longOutcome :: "string app_state" where
  "longOutcome =
     \<lparr> file' = Some ''long.csv'', columns = [], selectedColumn = JStr ''text'',
       isProcessing = False, error = None,
       languageResults =
         [\<lparr> label = JStr ''A'', language = JStr ''Undetermined'',
            text' = ''The quick brown fox jumps over the lazy dog and th...'' \<rparr>],
       stats = \<lparr> rows = 1, labels = 1, languages = {JStr ''Undetermined''} \<rparr> \<rparr>"

definition blankKeyOutcome :: "string app_state" where
  "blankKeyOutcome =
     \<lparr> file' = Some ''blank_key.csv'', columns = [], selectedColumn = JStr ''text'',
       isProcessing = False, error = None,
       languageResults =
         [\<lparr> label = JStr ''a'', language = JStr ''Undetermined'', text' = ''hello'' \<rparr>],
       stats = \<lparr> rows = 1, labels = 1, languages = {JStr ''Undetermined''} \<rparr> \<rparr>"

definition blankLabelOutcome :: "string app_state" where
  "blankLabelOutcome =
     \<lparr> file' = Some ''blank_label.csv'', columns = [JStr ''Column 1'', JStr ''Column 2''],
       selectedColumn = JStr ''Column 2'',
       isProcessing = False, error = None,
       languageResults =
         [\<lparr> label = JStr ''a'', language = JStr ''Undetermined'', text' = ''hello'' \<rparr>,
          \<lparr> label = JStr ''a'', language = JStr ''Undetermined'', text' = ''world'' \<rparr>],
       stats = \<lparr> rows = 2, labels = 1, languages = {JStr ''Undetermined''} \<rparr> \<rparr>"

definition numericHeaderOutcome :: "string app_state" where
  "numericHeaderOutcome =
     \<lparr> file' = Some ''numeric_header.csv'', columns = [JStr ''0'', JStr ''text''],
       selectedColumn = JStr ''text'',
       isProcessing = False, error = None,
       languageResults =
         [\<lparr> label = JStr ''x'', language = JStr ''English'', text' = ''Hello world'' \<rparr>,
          \<lparr> label = JStr ''x'', language = JStr ''French'', text' = ''Bonjour le monde'' \<rparr>],
       stats = \<lparr> rows = 2, labels = 1, languages = {JStr ''English'', JStr ''French''} \<rparr> \<rparr>"

definition malformedOutcome :: "string app_state" where
  "malformedOutcome =
     \<lparr> file' = Some ''malformed.csv'', columns = [JStr ''text''], selectedColumn = JStr ''text'',
       isProcessing = False, error = None,
       languageResults =
         [\<lparr> label = JStr ''A'', language = JStr ''English'', text' = ''Hello world'' \<rparr>,
          \<lparr> label = JStr ''B'', language = JStr ''French'', text' = ''Bonjour le monde'' \<rparr>],
       stats = \<lparr> rows = 2, labels = 2, languages = {JStr ''English'', JStr ''French''} \<rparr> \<rparr>"

section \<open>Auxiliary facts\<close>

subsection \<open>Lists and strings\<close>


lemma dropWhile_rev_dropWhile_Nil:
  "dropWhile P (rev (dropWhile P s)) = [] \<longleftrightarrow> list_all P s"
proof -
  have "(\<forall>x\<in>set (dropWhile P s). P x) \<longleftrightarrow> (\<forall>x\<in>set s. P x)"
  proof
    assume all: "\<forall>x\<in>set (dropWhile P s). P x"
    have "dropWhile P s = []"
    proof (rule ccontr)
      assume ne: "dropWhile P s \<noteq> []"
      then have "\<not> P (hd (dropWhile P s))" by (rule hd_dropWhile)
      moreover have "hd (dropWhile P s) \<in> set (dropWhile P s)" using ne by (rule hd_in_set)
      ultimately show False using all by blast
    qed
    then show "\<forall>x\<in>set s. P x" by (simp only: dropWhile_eq_Nil_conv)
  next
    assume "\<forall>x\<in>set s. P x"
    then show "\<forall>x\<in>set (dropWhile P s). P x" by (blast dest: set_dropWhileD)
  qed
  then show ?thesis by (simp add: list_all_iff)
qed

text \<open>Trimming leaves nothing exactly when the string is empty or all white space.\<close>

lemma trim_Nil_iff: "trim s = [] \<longleftrightarrow> list_all isWhiteSpace s"
  unfolding trim_def by (simp only: rev_is_Nil_conv dropWhile_rev_dropWhile_Nil)

lemma isHeaderCell_iff: "isHeaderCell cell \<longleftrightarrow> nonBlankStringCell cell"
  by (cases cell) (simp_all add: isHeaderCell_def nonBlankStringCell_def trim_Nil_iff)

lemma endsWith_append: "endsWith (xs @ s) s"
  by (simp add: endsWith_def)

lemma mapi_index_only:
  "mapi (\<lambda>_ i. f i) xs = map f [0..<length xs]"
  unfolding mapi_def by (rule nth_equalityI) simp_all

subsection \<open>The row filter and the result of a kept row\<close>

lemma keepRow_iff: "keepRow column row \<longleftrightarrow> nonEmptyStringCell (getProp row column)"
  by (cases "getProp row column") (simp_all add: keepRow_def nonEmptyStringCell_def)

lemma filter_keepRow:
  "filter (keepRow column) data = filter (\<lambda>row. nonEmptyStringCell (getProp row column)) data"
  by (simp add: keepRow_iff [abs_def])

text \<open>The callback of \<open>map\<close> does not throw on a row that the filter kept.\<close>

lemma toResult_keep:
  assumes "keepRow column row"
  shows "\<exists>s. getProp row column = JStr s \<and> s \<noteq> [] \<and>
           toResult franc langCodes column hh lc row i =
             Inr \<lparr> label = (if hh then getProp row lc else JStr (''Row '' @ string_of_nat (i + 1))),
                   language = getLanguageName langCodes (franc s),
                   text' = substring s 0 50 @ (if length s > 50 then ''...'' else []) \<rparr>"
  using assms by (cases "getProp row column") (simp_all add: keepRow_def toResult_def)

lemma mapiE_toResult:
  assumes "\<forall>row\<in>set rs. keepRow column row"
  shows "\<exists>results. mapiE (toResult franc langCodes column hh lc) i rs = Inr results
           \<and> length results = length rs
           \<and> (\<forall>k<length rs.
                 toResult franc langCodes column hh lc (rs ! k) (i + k) = Inr (results ! k))"
  using assms
proof (induction rs arbitrary: i)
  case Nil
  then show ?case by simp
next
  case (Cons row rs)
  from Cons.prems have "keepRow column row" by simp
  from toResult_keep [OF this] obtain y
    where y: "toResult franc langCodes column hh lc row i = Inr y"
    by blast
  from Cons.prems have "\<forall>r\<in>set rs. keepRow column r" by simp
  from Cons.IH [OF this, of "Suc i"] obtain ys where
    ys: "mapiE (toResult franc langCodes column hh lc) (Suc i) rs = Inr ys"
    and len: "length ys = length rs"
    and nth: "\<forall>k<length rs.
        toResult franc langCodes column hh lc (rs ! k) (Suc i + k) = Inr (ys ! k)"
    by blast
  have "mapiE (toResult franc langCodes column hh lc) i (row # rs) = Inr (y # ys)"
    using y ys by simp
  moreover have "length (y # ys) = length (row # rs)" using len by simp
  moreover have "\<forall>k<length (row # rs).
      toResult franc langCodes column hh lc ((row # rs) ! k) (i + k) = Inr ((y # ys) ! k)"
  proof (intro allI impI)
    fix k assume "k < length (row # rs)"
    then show "toResult franc langCodes column hh lc ((row # rs) ! k) (i + k)
                 = Inr ((y # ys) ! k)"
      using y nth by (cases k) simp_all
  qed
  ultimately show ?case by blast
qed

subsection \<open>The outcome of a column selection\<close>

lemma selectComplete_Nil: "selectComplete franc langCodes column [] st = Inl (TypeError, st)"
  by (simp add: selectComplete_def)

text \<open>On a table with a row the callback returns, and this is the state it sets.\<close>

lemma selectComplete_rows:
  assumes "data = row0 # rest"
  shows "\<exists>results.
           selectComplete franc langCodes column data st =
             Inr (st\<lparr> languageResults := results,
                      stats := \<lparr> rows = length data,
                                 labels = (if selectHasHeaders row0
                                           then card (set (map (\<lambda>row. getProp row
                                                  (labelColumnOf (selectHasHeaders row0) row0)) data))
                                           else length data),
                                 languages = set (map language results) \<rparr>,
                      isProcessing := False \<rparr>)
           \<and> length results = length (filter (keepRow column) data)
           \<and> (\<forall>k<length results.
                 toResult franc langCodes column (selectHasHeaders row0)
                   (labelColumnOf (selectHasHeaders row0) row0)
                   (filter (keepRow column) data ! k) k = Inr (results ! k))"
proof -
  let ?hh = "selectHasHeaders row0"
  let ?lc = "labelColumnOf ?hh row0"
  have "\<forall>row\<in>set (filter (keepRow column) data). keepRow column row" by simp
  from mapiE_toResult [OF this, of franc langCodes ?hh ?lc 0]
  obtain results where
    r: "mapiE (toResult franc langCodes column ?hh ?lc) 0 (filter (keepRow column) data)
          = Inr results"
    and len: "length results = length (filter (keepRow column) data)"
    and nth: "\<forall>k<length (filter (keepRow column) data).
        toResult franc langCodes column ?hh ?lc (filter (keepRow column) data ! k) (0 + k)
          = Inr (results ! k)"
    by blast
  have "selectComplete franc langCodes column data st =
             Inr (st\<lparr> languageResults := results,
                      stats := \<lparr> rows = length data,
                                 labels = (if ?hh
                                           then card (set (map (\<lambda>row. getProp row ?lc) data))
                                           else length data),
                                 languages = set (map language results) \<rparr>,
                      isProcessing := False \<rparr>)"
    using r unfolding assms selectComplete_def by (simp add: Let_def)
  then show ?thesis using len nth by auto
qed

text \<open>What the callback sets does not depend on the state it starts from.\<close>

lemma selectComplete_state_independent:
  fixes s1 s2 :: "'f app_state"
  assumes "selectComplete franc langCodes column data s1 = Inr s1'"
  shows "\<exists>s2'. selectComplete franc langCodes column data s2 = Inr s2'
           \<and> languageResults s2' = languageResults s1'
           \<and> stats s2' = stats s1'"
proof (cases data)
  case Nil
  with assms show ?thesis by (simp add: selectComplete_Nil)
next
  case (Cons row0 rest)
  define m where "m = mapiE (toResult franc langCodes column (selectHasHeaders row0)
      (labelColumnOf (selectHasHeaders row0) row0)) 0 (filter (keepRow column) data)"
  have eq: "selectComplete franc langCodes column data s =
      (case m of
         Inl e \<Rightarrow> Inl (e, s)
       | Inr results \<Rightarrow>
           Inr (s\<lparr> languageResults := results,
                   stats := \<lparr> rows = length data,
                              labels = (if selectHasHeaders row0
                                        then card (set (map (\<lambda>row. getProp row
                                               (labelColumnOf (selectHasHeaders row0) row0)) data))
                                        else length data),
                              languages = set (map language results) \<rparr>,
                   isProcessing := False \<rparr>))" for s :: "'f app_state"
    unfolding m_def selectComplete_def Cons by (simp only: list.case Let_def)
  show ?thesis
  proof (cases m)
    case (Inl e)
    with assms show ?thesis by (simp add: eq)
  next
    case (Inr results)
    with assms show ?thesis by (auto simp: eq)
  qed
qed

lemma handleColumnSelect_Inr:
  assumes "file' st = Some f" and "papa f = Complete data errors"
    and "handleColumnSelect papa franc langCodes column st = Inr st'"
  shows "\<exists>row0 rest results.
           data = row0 # rest
           \<and> st' = st\<lparr> selectedColumn := JStr column, isProcessing := True, error := None,
                      languageResults := results,
                      stats := \<lparr> rows = length data,
                                 labels = (if selectHasHeaders row0
                                           then card (set (map (\<lambda>row. getProp row
                                                  (labelColumnOf (selectHasHeaders row0) row0)) data))
                                           else length data),
                                 languages = set (map language results) \<rparr>,
                      isProcessing := False \<rparr>
           \<and> length results = length (filter (keepRow column) data)
           \<and> (\<forall>k<length results.
                 toResult franc langCodes column (selectHasHeaders row0)
                   (labelColumnOf (selectHasHeaders row0) row0)
                   (filter (keepRow column) data ! k) k = Inr (results ! k))"
proof -
  let ?st1 = "st\<lparr> selectedColumn := JStr column, isProcessing := True, error := None \<rparr>"
  have run: "selectComplete franc langCodes column data ?st1 = Inr st'"
    using assms by (simp add: handleColumnSelect_def)
  then have "data \<noteq> []" by (auto simp: selectComplete_Nil)
  then obtain row0 rest where d: "data = row0 # rest" by (cases data) auto
  from selectComplete_rows [OF d, of franc langCodes column ?st1] run d
  show ?thesis by auto
qed

text \<open>
  When the parse completes, the pass returns exactly when the table has a data row: the
  callback of \<open>map\<close> never throws, and \<open>Object.keys(data[0])\<close> throws on the empty table.
\<close>

lemma handleColumnSelect_returns_iff:
  assumes "file' st = Some f" and "papa f = Complete data errors"
  shows "(\<exists>st'. handleColumnSelect papa franc langCodes column st = Inr st') \<longleftrightarrow> data \<noteq> []"
proof (cases data)
  case Nil
  with assms show ?thesis by (simp add: handleColumnSelect_def selectComplete_Nil)
next
  case (Cons row0 rest)
  from selectComplete_rows [OF Cons]
  have "\<exists>st'. selectComplete franc langCodes column data
                 (st\<lparr> selectedColumn := JStr column, isProcessing := True, error := None \<rparr>)
               = Inr st'"
    by blast
  with assms Cons show ?thesis by (simp add: handleColumnSelect_def)
qed

text \<open>The result at position \<open>k\<close> is made from the \<open>k\<close>-th kept row.\<close>

lemma results_nth:
  assumes "file' st = Some f" and "papa f = Complete data errors"
    and "handleColumnSelect papa franc langCodes column st = Inr st'"
    and "k < length (languageResults st')"
  shows "\<exists>row0 rest s.
           data = row0 # rest
           \<and> k < length (filter (keepRow column) data)
           \<and> getProp (filter (keepRow column) data ! k) column = JStr s \<and> s \<noteq> []
           \<and> languageResults st' ! k =
               \<lparr> label = (if selectHasHeaders row0
                           then getProp (filter (keepRow column) data ! k)
                                  (labelColumnOf (selectHasHeaders row0) row0)
                           else JStr (''Row '' @ string_of_nat (k + 1))),
                 language = getLanguageName langCodes (franc s),
                 text' = substring s 0 50 @ (if length s > 50 then ''...'' else []) \<rparr>"
proof -
  let ?kept = "filter (keepRow column) data"
  from handleColumnSelect_Inr [OF assms(1,2,3)] obtain row0 rest results where
    d: "data = row0 # rest"
    and st': "st' = st\<lparr> selectedColumn := JStr column, isProcessing := True, error := None,
                      languageResults := results,
                      stats := \<lparr> rows = length data,
                                 labels = (if selectHasHeaders row0
                                           then card (set (map (\<lambda>row. getProp row
                                                  (labelColumnOf (selectHasHeaders row0) row0)) data))
                                           else length data),
                                 languages = set (map language results) \<rparr>,
                      isProcessing := False \<rparr>"
    and len: "length results = length ?kept"
    and nth: "\<forall>k<length results.
                 toResult franc langCodes column (selectHasHeaders row0)
                   (labelColumnOf (selectHasHeaders row0) row0) (?kept ! k) k = Inr (results ! k)"
    by blast
  have lr: "languageResults st' = results" by (simp add: st')
  have k: "k < length ?kept" using assms(4) lr len by simp
  then have "?kept ! k \<in> set ?kept" by (rule nth_mem)
  then have "keepRow column (?kept ! k)" by simp
  from toResult_keep [OF this, of franc langCodes "selectHasHeaders row0"
      "labelColumnOf (selectHasHeaders row0) row0" k]
  obtain s where s: "getProp (?kept ! k) column = JStr s" "s \<noteq> []"
    and r: "toResult franc langCodes column (selectHasHeaders row0)
              (labelColumnOf (selectHasHeaders row0) row0) (?kept ! k) k =
             Inr \<lparr> label = (if selectHasHeaders row0
                             then getProp (?kept ! k) (labelColumnOf (selectHasHeaders row0) row0)
                             else JStr (''Row '' @ string_of_nat (k + 1))),
                   language = getLanguageName langCodes (franc s),
                   text' = substring s 0 50 @ (if length s > 50 then ''...'' else []) \<rparr>"
    by blast
  from nth k len have "toResult franc langCodes column (selectHasHeaders row0)
      (labelColumnOf (selectHasHeaders row0) row0) (?kept ! k) k = Inr (results ! k)"
    by simp
  with r have "results ! k =
      \<lparr> label = (if selectHasHeaders row0
                  then getProp (?kept ! k) (labelColumnOf (selectHasHeaders row0) row0)
                  else JStr (''Row '' @ string_of_nat (k + 1))),
        language = getLanguageName langCodes (franc s),
        text' = substring s 0 50 @ (if length s > 50 then ''...'' else []) \<rparr>"
    by simp
  then show ?thesis using d k s lr by blast
qed

subsection \<open>The sample runs\<close>

lemmas run_defs = handleColumnSelect_def selectComplete_def sampleHeaderPapa_def
  sampleState_def initialState_def keepRow_def getProp_def toResult_def
  selectHasHeaders_def labelColumnOf_def Object_keys_def getLanguageName_def sampleFranc_def
  sampleLangCodes_def substring_def Let_def js_or_def objectPrototypeRead_def
  objectPrototypeMethods_def

lemmas upload_defs = handleFileUpload_def sampleUploadPapa_def uploadComplete_def
  uploadHasHeaders_def isHeaderCell_def trim_def isWhiteSpace_def mapi_def string_of_nat.simps
  digit_char_def initialState_def js_or_def index_def upt_rec

lemma sample_file: "file' (sampleState f) = Some f"
  by (simp add: sampleState_def)

lemma sample_run:
  "handleColumnSelect sampleHeaderPapa sampleFranc sampleLangCodes ''text''
     (sampleState ''sample.csv'') = Inr sampleOutcome"
  by (simp add: run_defs sampleRows_def sampleOutcome_def)

lemma dots_run:
  "handleColumnSelect sampleHeaderPapa sampleFranc sampleLangCodes ''text''
     (sampleState ''dots.csv'') = Inr dotsOutcome"
  by (simp add: run_defs dotsRows_def dotsOutcome_def)

lemma long_run:
  "handleColumnSelect sampleHeaderPapa sampleFranc sampleLangCodes ''text''
     (sampleState ''long.csv'') = Inr longOutcome"
  by (simp add: run_defs longRows_def longOutcome_def)

lemma blank_key_run:
  "handleColumnSelect sampleHeaderPapa sampleFranc sampleLangCodes ''text''
     (sampleState ''blank_key.csv'') = Inr blankKeyOutcome"
  by (simp add: run_defs blankKeyRows_def blankKeyOutcome_def)

lemma sample_upload:
  "columns (handleFileUpload sampleUploadPapa (Some ''sample.csv'') initialState) = [JStr ''text'']
   \<and> selectedColumn (handleFileUpload sampleUploadPapa (Some ''sample.csv'') initialState)
       = JStr ''text''"
  by (simp add: upload_defs)

lemma sample_parse: "sampleHeaderPapa ''sample.csv'' = Complete sampleRows []"
  by (simp add: sampleHeaderPapa_def)

lemma long_parse: "sampleHeaderPapa ''long.csv'' = Complete longRows []"
  by (simp add: sampleHeaderPapa_def)

section \<open>Header detection\<close>

text \<open>
  At upload, row 0 is judged a header exactly when every cell is a string that trimming
  leaves non-empty; an empty, all-white-space or non-string cell anywhere in the row makes
  the judgement false.
\<close>

lemma upload_header_rule:
  "uploadHasHeaders firstRow \<longleftrightarrow> (\<forall>cell\<in>set firstRow. \<exists>s. cell = JStr s \<and> trim s \<noteq> [])"
proof -
  have "isHeaderCell cell \<longleftrightarrow> (\<exists>s. cell = JStr s \<and> trim s \<noteq> [])" for cell
    by (cases cell) (simp_all add: isHeaderCell_def)
  then show ?thesis by (simp add: uploadHasHeaders_def list_all_iff)
qed

lemma upload_header_rule_blank:
  "uploadHasHeaders firstRow \<longleftrightarrow> list_all nonBlankStringCell firstRow"
  by (simp add: uploadHasHeaders_def isHeaderCell_iff [abs_def])

text \<open>
  Claim C1. The header rule (every cell of row 0 a string that is non-empty after trimming)
  is said to govern both the upload and the header detection of the column selection. The
  column selection tests the keys of the first object with \<open>key !== ''\<close> and does not trim:
  for a file whose first line is \<open>" ,text"\<close> the upload judges the table headerless and
  offers synthetic column names, while the column selection judges that a header exists and
  labels the result with the value under the key \<open>" "\<close> instead of \<open>"Row 1"\<close>.
\<close>

theorem header_redetection_blank_name:
  "\<not> uploadHasHeaders [JStr '' '', JStr ''text'']
   \<and> columns (handleFileUpload sampleUploadPapa (Some ''blank_key.csv'') initialState)
       = [JStr ''Column 1'', JStr ''Column 2'']
   \<and> selectHasHeaders [('' '', JStr ''a''), (''text'', JStr ''hello'')]
   \<and> handleColumnSelect sampleHeaderPapa sampleFranc sampleLangCodes ''text''
         (sampleState ''blank_key.csv'') = Inr blankKeyOutcome
   \<and> map label (languageResults blankKeyOutcome) = [JStr ''a'']"
  by (simp add: blank_key_run upload_defs selectHasHeaders_def Object_keys_def
      blankKeyOutcome_def)

section \<open>Column names of a headerless table\<close>

text \<open>
  In the headerless branch of the upload every source column gets a name, the one at index
  \<open>i\<close> the name \<open>Column (i + 1)\<close>, and \<open>Column 2\<close> is selected.
\<close>

lemma headerless_columns:
  assumes "\<not> uploadHasHeaders firstRow"
  shows "columns (uploadComplete (firstRow # rest) st)
           = map (\<lambda>i. JStr (''Column '' @ string_of_nat (i + 1))) [0..<length firstRow]
         \<and> selectedColumn (uploadComplete (firstRow # rest) st) = JStr ''Column 2''"
  using assms by (simp add: uploadComplete_def mapi_index_only)

text \<open>
  Claim C2. For a headerless table the selectable columns are said to start at
  \<open>"Column 2"\<close>, the label column (index 0) never being listed. The headerless branch maps
  over the whole first row, without the \<open>slice(1)\<close> of the header branch: for a file whose
  first line is \<open>",hello"\<close> the list is \<open>"Column 1", "Column 2"\<close>, so its first entry is
  \<open>"Column 1"\<close>, the name of the label column. The selected column is \<open>"Column 2"\<close>.
\<close>

theorem headerless_columns_start_at_one:
  "sampleUploadPapa ''headerless.csv''
     = Complete [[JStr [], JStr ''hello''], [JStr ''1'', JStr ''world'']] []
   \<and> \<not> uploadHasHeaders [JStr [], JStr ''hello'']
   \<and> columns (handleFileUpload sampleUploadPapa (Some ''headerless.csv'') initialState)
       = [JStr ''Column 1'', JStr ''Column 2'']
   \<and> selectedColumn (handleFileUpload sampleUploadPapa (Some ''headerless.csv'') initialState)
       = JStr ''Column 2''"
  by (simp add: upload_defs)

section \<open>Truncation of the text\<close>

text \<open>
  Claim C3, as stated: the text of a result ends in \<open>"..."\<close> if and only if the selected cell
  is longer than 50. It fails for a short cell that itself ends in three dots: the cell
  \<open>"Wait..."\<close> has length 7 and its result text is \<open>"Wait..."\<close>.
\<close>

theorem truncation_iff_counterexample:
  "sampleHeaderPapa ''dots.csv'' = Complete dotsRows []
   \<and> getProp (dotsRows ! 0) ''text'' = JStr ''Wait...''
   \<and> handleColumnSelect sampleHeaderPapa sampleFranc sampleLangCodes ''text''
        (sampleState ''dots.csv'') = Inr dotsOutcome
   \<and> text' (languageResults dotsOutcome ! 0) = ''Wait...''
   \<and> endsWith (text' (languageResults dotsOutcome ! 0)) ''...''
   \<and> \<not> 50 < length ''Wait...''"
  by (simp add: dots_run sampleHeaderPapa_def dotsRows_def dotsOutcome_def getProp_def
      endsWith_def)

text \<open>
  Claim C3, amended. For every result of a pass that returns, with \<open>s\<close> the selected cell of
  the row it comes from: the text is the first 50 characters of \<open>s\<close>, followed by \<open>"..."\<close>
  exactly when \<open>s\<close> is longer than 50; its length is at most 53; and it ends in \<open>"..."\<close> if
  and only if \<open>s\<close> is longer than 50 or \<open>s\<close> itself ends in \<open>"..."\<close>.
\<close>

theorem truncation_law:
  assumes "file' st = Some f" and "papa f = Complete data errors"
    and "handleColumnSelect papa franc langCodes column st = Inr st'"
    and "k < length (languageResults st')"
  shows "\<exists>s. getProp (filter (\<lambda>row. nonEmptyStringCell (getProp row column)) data ! k) column
                = JStr s
           \<and> text' (languageResults st' ! k) = take 50 s @ (if 50 < length s then ''...'' else [])
           \<and> length (text' (languageResults st' ! k)) \<le> 53
           \<and> (endsWith (text' (languageResults st' ! k)) ''...''
                \<longleftrightarrow> 50 < length s \<or> endsWith s ''...'')"
proof -
  from results_nth [OF assms] obtain row0 rest s where
    cell: "getProp (filter (keepRow column) data ! k) column = JStr s"
    and res: "languageResults st' ! k =
               \<lparr> label = (if selectHasHeaders row0
                           then getProp (filter (keepRow column) data ! k)
                                  (labelColumnOf (selectHasHeaders row0) row0)
                           else JStr (''Row '' @ string_of_nat (k + 1))),
                 language = getLanguageName langCodes (franc s),
                 text' = substring s 0 50 @ (if length s > 50 then ''...'' else []) \<rparr>"
    by blast
  have t: "text' (languageResults st' ! k) = take 50 s @ (if 50 < length s then ''...'' else [])"
    by (simp add: res substring_def)
  have len: "length (text' (languageResults st' ! k)) \<le> 53"
    unfolding t by simp
  have ends: "endsWith (text' (languageResults st' ! k)) ''...''
                \<longleftrightarrow> 50 < length s \<or> endsWith s ''...''"
  proof (cases "50 < length s")
    case True
    then show ?thesis unfolding t by (simp add: endsWith_append)
  next
    case False
    then show ?thesis unfolding t by simp
  qed
  from cell t len ends show ?thesis by (simp add: filter_keepRow)
qed

theorem truncation_law_witness:
  "file' (sampleState ''long.csv'') = Some ''long.csv''
   \<and> sampleHeaderPapa ''long.csv'' = Complete longRows []
   \<and> handleColumnSelect sampleHeaderPapa sampleFranc sampleLangCodes ''text''
        (sampleState ''long.csv'') = Inr longOutcome
   \<and> 0 < length (languageResults longOutcome)
   \<and> text' (languageResults longOutcome ! 0)
       = ''The quick brown fox jumps over the lazy dog and th...''
   \<and> length (text' (languageResults longOutcome ! 0)) = 53
   \<and> endsWith (text' (languageResults longOutcome ! 0)) ''...''"
proof -
  have k: "0 < length (languageResults longOutcome)"
    by (simp add: longOutcome_def)
  from truncation_law [of "sampleState ''long.csv''" "''long.csv''" sampleHeaderPapa longRows
      "[]" sampleFranc sampleLangCodes "''text''" longOutcome 0, OF sample_file long_parse long_run k]
  have "endsWith (text' (languageResults longOutcome ! 0)) ''...''"
    by (auto simp: longRows_def nonEmptyStringCell_def getProp_def)
  then show ?thesis using k sample_file long_parse long_run
    by (simp add: longOutcome_def)
qed

section \<open>getLanguageName\<close>

text \<open>
  The names that the table inherits are found by the read whatever the table holds: a
  table without an own entry \<open>constructor\<close> resolves that code to the function
  \<open>Object.prototype.constructor\<close>.
\<close>

lemma getLanguageName_constructor:
  assumes "langCodes ''constructor'' = None"
  shows "getLanguageName langCodes ''constructor'' = JFunction ''constructor''"
  using assms
  by (simp add: getLanguageName_def js_or_def objectPrototypeRead_def objectPrototypeMethods_def)




section \<open>Statistics\<close>



text \<open>
  What the code computes for \<open>stats.labels\<close>: with its own header judgement true, the
  number of distinct values under the first key of the first row object; else the number
  of data rows.
\<close>

lemma labels_computed:
  assumes "file' st = Some f" and "papa f = Complete data errors"
    and "handleColumnSelect papa franc langCodes column st = Inr st'"
  shows "\<exists>row0 rest. data = row0 # rest
           \<and> labels (stats st') =
               (if selectHasHeaders row0
                then card ((\<lambda>row. getProp row (labelColumnOf True row0)) ` set data)
                else rows (stats st'))"
proof -
  from handleColumnSelect_Inr [OF assms] obtain row0 rest results where
    d: "data = row0 # rest"
    and st': "st' = st\<lparr> selectedColumn := JStr column, isProcessing := True, error := None,
                      languageResults := results,
                      stats := \<lparr> rows = length data,
                                 labels = (if selectHasHeaders row0
                                           then card (set (map (\<lambda>row. getProp row
                                                  (labelColumnOf (selectHasHeaders row0) row0)) data))
                                           else length data),
                                 languages = set (map language results) \<rparr>,
                      isProcessing := False \<rparr>"
    by blast
  have "labels (stats st') =
               (if selectHasHeaders row0
                then card ((\<lambda>row. getProp row (labelColumnOf True row0)) ` set data)
                else rows (stats st'))"
    by (simp add: st')
  with d show ?thesis by blast
qed

lemma numeric_header_run:
  "handleColumnSelect sampleHeaderPapa sampleFranc sampleLangCodes ''text''
     (handleFileUpload sampleUploadPapa (Some ''numeric_header.csv'') initialState)
   = Inr numericHeaderOutcome"
  by (simp add: run_defs upload_defs numericHeaderTable_def numericHeaderRows_def
      numericHeaderOutcome_def)

lemma blank_label_run:
  "handleColumnSelect sampleHeaderPapa sampleFranc sampleLangCodes ''Column 2''
     (handleFileUpload sampleUploadPapa (Some ''blank_label.csv'') initialState)
   = Inr blankLabelOutcome"
  by (simp add: run_defs upload_defs blankLabelTable_def blankLabelRows_def
      blankLabelOutcome_def)

text \<open>
  Claim C6. \<open>stats.labels\<close> is said to be the number of distinct values of the label
  column, the first column of the table, when a header exists, and \<open>stats.rows\<close> when none
  exists. The code takes the label column to be \<open>Object.keys(data[0])[0]\<close>, and
  \<open>Object.keys\<close> lists a key that is an array index before the others: for the file
  \<open>label,0,text\<close>, \<open>A,x,Hello world\<close>, \<open>B,x,Bonjour le monde\<close>, whose first row the upload
  judges a header, the first column holds the two values \<open>A\<close> and \<open>B\<close>, and the code counts
  the values of the column \<open>0\<close>: \<open>stats.labels\<close> is 1. And for the file \<open>" ,Column 2"\<close>,
  \<open>a,hello\<close>, \<open>a,world\<close>, which the upload judges headerless, the column selection judges
  that a header exists (no trimming of the keys): \<open>stats.labels\<close> is 1 and \<open>stats.rows\<close>
  is 2.
\<close>

theorem labels_counts_wrong_column:
  "sampleUploadPapa ''numeric_header.csv'' = Complete numericHeaderTable []
   \<and> uploadHasHeaders (numericHeaderTable ! 0)
   \<and> columns (handleFileUpload sampleUploadPapa (Some ''numeric_header.csv'') initialState)
       = [JStr ''0'', JStr ''text'']
   \<and> index (numericHeaderTable ! 1) 0 = JStr ''A''
   \<and> index (numericHeaderTable ! 2) 0 = JStr ''B''
   \<and> sampleHeaderPapa ''numeric_header.csv'' = Complete numericHeaderRows []
   \<and> handleColumnSelect sampleHeaderPapa sampleFranc sampleLangCodes ''text''
        (handleFileUpload sampleUploadPapa (Some ''numeric_header.csv'') initialState)
      = Inr numericHeaderOutcome
   \<and> rows (stats numericHeaderOutcome) = 2
   \<and> labels (stats numericHeaderOutcome) = 1
   \<and> sampleUploadPapa ''blank_label.csv'' = Complete blankLabelTable []
   \<and> \<not> uploadHasHeaders (blankLabelTable ! 0)
   \<and> columns (handleFileUpload sampleUploadPapa (Some ''blank_label.csv'') initialState)
       = [JStr ''Column 1'', JStr ''Column 2'']
   \<and> sampleHeaderPapa ''blank_label.csv'' = Complete blankLabelRows []
   \<and> handleColumnSelect sampleHeaderPapa sampleFranc sampleLangCodes ''Column 2''
        (handleFileUpload sampleUploadPapa (Some ''blank_label.csv'') initialState)
      = Inr blankLabelOutcome
   \<and> rows (stats blankLabelOutcome) = 2
   \<and> labels (stats blankLabelOutcome) = 1"
  using numeric_header_run blank_label_run
  by (simp add: upload_defs sampleHeaderPapa_def
      numericHeaderTable_def blankLabelTable_def numericHeaderOutcome_def blankLabelOutcome_def)

section \<open>Parse errors\<close>

text \<open>
  The \<open>error\<close> callbacks, for a file that cannot be read. The column selection has set the
  selected column and the upload has set the file before the parse; the callback sets the
  error message (a fixed prefix and the parser's message), and the results, the statistics
  and the column list stay as they were.
\<close>

lemma error_callback_state:
  assumes "file' st = Some f" and "papa f = ParseError message"
    and "uploadPapa g = ParseError message'"
  shows "handleColumnSelect papa franc langCodes column st
           = Inr (st\<lparr> selectedColumn := JStr column,
                      error := Some (''Error processing CSV: '' @ message),
                      isProcessing := False \<rparr>)
         \<and> handleFileUpload uploadPapa (Some g) st
           = st\<lparr> file' := Some g, error := Some (''Error parsing CSV: '' @ message') \<rparr>"
  using assms by (simp add: handleColumnSelect_def handleFileUpload_def)

text \<open>
  The \<open>complete\<close> callbacks do not read \<open>results.errors\<close>: a parse that reports errors in
  the content sets what a parse without errors sets for the same rows.
\<close>

lemma results_errors_not_read:
  assumes "file' st = Some f"
    and "papa f = Complete data errors" and "papa' f = Complete data []"
    and "uploadPapa g = Complete table errors'" and "uploadPapa' g = Complete table []"
  shows "handleColumnSelect papa franc langCodes column st
           = handleColumnSelect papa' franc langCodes column st
         \<and> handleFileUpload uploadPapa (Some g) st = handleFileUpload uploadPapa' (Some g) st"
  using assms by (simp add: handleColumnSelect_def handleFileUpload_def)

lemma malformed_run:
  "handleColumnSelect sampleHeaderPapa sampleFranc sampleLangCodes ''text''
     (shownState ''malformed.csv'') = Inr malformedOutcome"
  by (simp add: handleColumnSelect_def selectComplete_def sampleHeaderPapa_def shownState_def
      keepRow_def getProp_def toResult_def selectHasHeaders_def labelColumnOf_def
      Object_keys_def getLanguageName_def sampleFranc_def sampleLangCodes_def substring_def
      Let_def js_or_def malformedRows_def malformedOutcome_def)

text \<open>
  Claim C7. When the parse of the table fails, the pipeline is said to report a parse error
  with a readable message, to produce no new results, and to leave the results and
  statistics shown before as they were, with no partial overwrite of the state. The
  handlers report only what the parser passes to the \<open>error\<close> callback. A malformed file
  (\<open>malformed.csv\<close>, with a quote that is not closed) is passed to \<open>complete\<close>, its errors in
  \<open>results.errors\<close>, which no handler reads: from a state that shows the results of an
  earlier pass, the column selection sets no error and replaces the results and the
  statistics by those of the rows that could be read, and the upload sets no error. And
  when the \<open>error\<close> callback does run at upload (\<open>broken.csv\<close>), the file of the state is
  already the new one while the column list is still that of the earlier file.
\<close>

theorem malformed_file_overwrites_results:
  "sampleHeaderPapa ''malformed.csv'' = Complete malformedRows [''Quoted field unterminated'']
   \<and> languageResults (shownState ''malformed.csv'')
       = [\<lparr> label = JStr ''Z'', language = JStr ''English'', text' = ''old'' \<rparr>]
   \<and> stats (shownState ''malformed.csv'')
       = \<lparr> rows = 1, labels = 1, languages = {JStr ''English''} \<rparr>
   \<and> handleColumnSelect sampleHeaderPapa sampleFranc sampleLangCodes ''text''
        (shownState ''malformed.csv'') = Inr malformedOutcome
   \<and> error malformedOutcome = None
   \<and> languageResults malformedOutcome
       = [\<lparr> label = JStr ''A'', language = JStr ''English'', text' = ''Hello world'' \<rparr>,
          \<lparr> label = JStr ''B'', language = JStr ''French'', text' = ''Bonjour le monde'' \<rparr>]
   \<and> stats malformedOutcome
       = \<lparr> rows = 2, labels = 2, languages = {JStr ''English'', JStr ''French''} \<rparr>
   \<and> error (handleFileUpload sampleUploadPapa (Some ''malformed.csv'')
              (shownState ''sample.csv'')) = None
   \<and> sampleUploadPapa ''broken.csv'' = ParseError ''file could not be read''
   \<and> file' (handleFileUpload sampleUploadPapa (Some ''broken.csv'') (shownState ''sample.csv''))
       = Some ''broken.csv''
   \<and> columns (handleFileUpload sampleUploadPapa (Some ''broken.csv'')
                (shownState ''sample.csv'')) = [JStr ''text'']"
  using malformed_run
  by (simp add: sampleHeaderPapa_def shownState_def malformedOutcome_def
      handleFileUpload_def sampleUploadPapa_def uploadComplete_def uploadHasHeaders_def
      isHeaderCell_def trim_def isWhiteSpace_def js_or_def index_def)

section \<open>The results of a column selection\<close>



section \<open>A table without rows\<close>

text \<open>
  The upload of a table without rows sets the file and clears the error, and leaves the
  column list and the selection as they were: empty and none from the initial state.
\<close>

lemma upload_zero_rows:
  assumes "papa f = Complete [] errors"
  shows "handleFileUpload papa (Some f) st = st\<lparr> file' := Some f, error := None \<rparr>"
  using assms by (simp add: handleFileUpload_def uploadComplete_def)

lemma upload_zero_rows_initial:
  assumes "papa f = Complete [] errors"
  shows "columns (handleFileUpload papa (Some f) initialState) = []
         \<and> selectedColumn (handleFileUpload papa (Some f) initialState) = JStr []"
  using assms by (simp add: upload_zero_rows initialState_def)

text \<open>The column selection throws on a table without data rows.\<close>

lemma select_zero_rows:
  assumes "file' st = Some f" and "papa f = Complete [] errors"
  shows "handleColumnSelect papa franc langCodes column st
           = Inl (TypeError,
                  st\<lparr> selectedColumn := JStr column, isProcessing := True, error := None \<rparr>)"
  using assms by (simp add: handleColumnSelect_def selectComplete_def)

text \<open>
  Claim C9. No step of the processing of a table without rows is said to raise an error,
  the header detection and the label column of the column selection included. The
  \<open>complete\<close> callback of the column selection reads \<open>Object.keys(data[0])\<close> without the
  guard \<open>results.data.length > 0\<close> of the upload. For a file with the single line \<open>"a,b"\<close>
  the upload offers the column \<open>"b"\<close>; selecting it parses the file with \<open>header: true\<close> to
  zero data rows, and the callback throws a TypeError, with the state left processing.
\<close>

theorem select_on_header_only_file_throws:
  "columns (handleFileUpload sampleUploadPapa (Some ''header_only.csv'') initialState)
     = [JStr ''b'']
   \<and> sampleHeaderPapa ''header_only.csv'' = Complete [] []
   \<and> handleColumnSelect sampleHeaderPapa sampleFranc sampleLangCodes ''b''
        (handleFileUpload sampleUploadPapa (Some ''header_only.csv'') initialState)
      = Inl (TypeError,
             (handleFileUpload sampleUploadPapa (Some ''header_only.csv'') initialState)
               \<lparr> selectedColumn := JStr ''b'', isProcessing := True, error := None \<rparr>)"
  by (simp add: upload_defs handleColumnSelect_def selectComplete_def sampleHeaderPapa_def)

section \<open>Determinism\<close>

text \<open>
  Claim C10. With the parser and the classifier functions of their inputs, the results and
  the statistics of a column selection pass depend only on the file and the chosen column:
  two passes on the same file and column, from any two states, return the same results
  and the same statistics.
\<close>

theorem column_pass_depends_on_file_and_column:
  fixes st1 st2 :: "'f app_state"
  assumes "file' st1 = Some f" and "file' st2 = Some f" and "papa f = Complete data errors"
    and "handleColumnSelect papa franc langCodes column st1 = Inr st1'"
  shows "\<exists>st2'. handleColumnSelect papa franc langCodes column st2 = Inr st2'
           \<and> languageResults st2' = languageResults st1'
           \<and> stats st2' = stats st1'"
proof -
  let ?s1 = "st1\<lparr> selectedColumn := JStr column, isProcessing := True, error := None \<rparr>"
  let ?s2 = "st2\<lparr> selectedColumn := JStr column, isProcessing := True, error := None \<rparr>"
  have run1: "selectComplete franc langCodes column data ?s1 = Inr st1'"
    using assms(1,3,4) by (simp add: handleColumnSelect_def)
  have run2: "handleColumnSelect papa franc langCodes column st2
                = selectComplete franc langCodes column data ?s2"
    using assms(2,3) by (simp add: handleColumnSelect_def)
  from run1 selectComplete_state_independent [of franc langCodes column data ?s1 st1' ?s2]
  show ?thesis unfolding run2 by simp
qed

theorem column_pass_depends_on_file_and_column_witness:
  "file' (sampleState ''sample.csv'') = Some ''sample.csv''
   \<and> file' (shownState ''sample.csv'') = Some ''sample.csv''
   \<and> sampleHeaderPapa ''sample.csv'' = Complete sampleRows []
   \<and> handleColumnSelect sampleHeaderPapa sampleFranc sampleLangCodes ''text''
        (sampleState ''sample.csv'') = Inr sampleOutcome
   \<and> (\<exists>st2'. handleColumnSelect sampleHeaderPapa sampleFranc sampleLangCodes ''text''
                (shownState ''sample.csv'') = Inr st2'
             \<and> languageResults st2' = languageResults sampleOutcome
             \<and> stats st2' = stats sampleOutcome)"
proof -
  have h2: "file' (shownState ''sample.csv'') = Some ''sample.csv''"
    by (simp add: shownState_def)
  from column_pass_depends_on_file_and_column [of "sampleState ''sample.csv''" "''sample.csv''"
      "shownState ''sample.csv''" sampleHeaderPapa sampleRows "[]" sampleFranc sampleLangCodes
      "''text''" sampleOutcome, OF sample_file h2 sample_parse sample_run]
  show ?thesis using sample_file h2 sample_parse sample_run by simp
qed

end
